theory Spec2Isabelle
  imports Complex_Main
begin

section \<open>Input parsing (\<open>parseLine\<close>)\<close>

text \<open>
  Go strings are byte sequences; they are modelled as \<open>string\<close> (a list of 8-bit
  characters). Go's \<open>int\<close> is the 64-bit signed integer of the deployment platform; it is
  modelled as \<open>int\<close>, with the range check or the wrap-around written out where the code
  can reach the bounds.
\<close>

record PreCoordinateRequest =
  Days :: int
  ZIPCode :: string
  LineNum :: int

text \<open>\<open>strings.Split(text, sep)\<close> for a one-byte separator: the pieces between
  occurrences of the separator, so a text with \<open>n\<close> separators gives \<open>n + 1\<close> pieces.\<close>

fun Split :: "char \<Rightarrow> string \<Rightarrow> string list" where
  "Split sep [] = [[]]"
| "Split sep (c # cs) =
     (if c = sep then [] # Split sep cs
      else (case Split sep cs of
              p # ps \<Rightarrow> (c # p) # ps
            | [] \<Rightarrow> [[c]]))"

text \<open>
  \<open>strings.TrimSpace\<close> removes leading and trailing Unicode white space. On the UTF-8
  bytes of a Go string these are the following byte sequences (U+0009..U+000D, U+0020,
  U+0085, U+00A0, U+1680, U+2000..U+200A, U+2028, U+2029, U+202F, U+205F, U+3000).
\<close>

definition space_runes :: "string list" where
  "space_runes =
     [[CHR 0x09], [CHR 0x0A], [CHR 0x0B], [CHR 0x0C], [CHR 0x0D], [CHR 0x20],
      [CHR 0xC2, CHR 0x85], [CHR 0xC2, CHR 0xA0],
      [CHR 0xE1, CHR 0x9A, CHR 0x80],
      [CHR 0xE2, CHR 0x80, CHR 0x80], [CHR 0xE2, CHR 0x80, CHR 0x81],
      [CHR 0xE2, CHR 0x80, CHR 0x82], [CHR 0xE2, CHR 0x80, CHR 0x83],
      [CHR 0xE2, CHR 0x80, CHR 0x84], [CHR 0xE2, CHR 0x80, CHR 0x85],
      [CHR 0xE2, CHR 0x80, CHR 0x86], [CHR 0xE2, CHR 0x80, CHR 0x87],
      [CHR 0xE2, CHR 0x80, CHR 0x88], [CHR 0xE2, CHR 0x80, CHR 0x89],
      [CHR 0xE2, CHR 0x80, CHR 0x8A],
      [CHR 0xE2, CHR 0x80, CHR 0xA8], [CHR 0xE2, CHR 0x80, CHR 0xA9],
      [CHR 0xE2, CHR 0x80, CHR 0xAF],
      [CHR 0xE2, CHR 0x81, CHR 0x9F],
      [CHR 0xE3, CHR 0x80, CHR 0x80]]"

text \<open>Strip, from the front of \<open>s\<close>, every leading occurrence of one of the byte
  sequences \<open>rs\<close>.\<close>

function trim_front :: "string list \<Rightarrow> string \<Rightarrow> string" where
  "trim_front rs s =
     (case find (\<lambda>r. r \<noteq> [] \<and> take (length r) s = r) rs of
        None \<Rightarrow> s
      | Some r \<Rightarrow> trim_front rs (drop (length r) s))"
  by pat_completeness auto
termination
proof (relation "measure (\<lambda>(rs, s). length s)")
  show "wf (measure (\<lambda>(rs, s). length s))" by simp
next
  fix rs :: "string list" and s r :: string
  assume "find (\<lambda>r. r \<noteq> [] \<and> take (length r) s = r) rs = Some r"
  then have r: "r \<noteq> []" "take (length r) s = r"
    by (auto simp: find_Some_iff)
  from r have "s \<noteq> []" by auto
  with r show "((rs, drop (length r) s), (rs, s)) \<in> measure (\<lambda>(rs, s). length s)"
    by (cases r) auto
qed

definition TrimSpace :: "string \<Rightarrow> string" where
  "TrimSpace s = rev (trim_front (map rev space_runes) (rev (trim_front space_runes s)))"

text \<open>
  \<open>strconv.Atoi\<close>: an optional sign followed by one or more decimal digits, and the
  value must fit the 64-bit \<open>int\<close>; every other input is an error (\<open>None\<close>).
\<close>

definition is_digit :: "char \<Rightarrow> bool" where
  "is_digit c \<longleftrightarrow> (48::nat) \<le> of_char c \<and> of_char c \<le> (57::nat)"

definition digit_val :: "char \<Rightarrow> int" where
  "digit_val c = int (of_char c) - 48"

definition digits_val :: "string \<Rightarrow> int" where
  "digits_val ds = foldl (\<lambda>a c. a * 10 + digit_val c) 0 ds"

definition Atoi :: "string \<Rightarrow> int option" where
  "Atoi s =
     (let (neg, ds) =
            (case s of
               [] \<Rightarrow> (False, [])
             | c # cs \<Rightarrow>
                 if c = CHR ''-'' then (True, cs)
                 else if c = CHR ''+'' then (False, cs)
                 else (False, s));
          v = (if neg then - digits_val ds else digits_val ds)
      in if ds = [] \<or> \<not> list_all is_digit ds then None
         else if v < - (2 ^ 63) \<or> 2 ^ 63 \<le> v then None
         else Some v)"

text \<open>\<open>parseLine\<close> returns the request and a success flag; the model returns
  \<open>None\<close> where the source returns \<open>false\<close> (the diagnostics printed are left out).\<close>

definition parseLine :: "string \<Rightarrow> int \<Rightarrow> PreCoordinateRequest option" where
  "parseLine text lineNum =
     (let parameters = Split (CHR ''|'') text in
      if length parameters \<noteq> 2 then None
      else
        let daysStr = TrimSpace (parameters ! 0);
            ZIPcode = TrimSpace (parameters ! 1)
        in case Atoi daysStr of
             None \<Rightarrow> None
           | Some days \<Rightarrow>
               if days \<le> 0 then None
               else Some \<lparr>Days = (if days > 5 then 5 else days),
                          ZIPCode = ZIPcode, LineNum = lineNum\<rparr>)"


section \<open>Broker message keys\<close>

text \<open>\<open>processRequest\<close> builds the key of every message it publishes with
  \<open>fmt.Sprintf("%s-%s", zipCode, date)\<close>.\<close>

definition message_key :: "string \<Rightarrow> string \<Rightarrow> string" where
  "message_key zipCode date = zipCode @ ''-'' @ date"

text \<open>\<open>strings.SplitN(s, sep, 2)\<close> for a one-byte separator: the text before the
  first separator and the text after it, or the whole text alone when there is no
  separator.\<close>

definition SplitN2 :: "char \<Rightarrow> string \<Rightarrow> string list" where
  "SplitN2 sep s =
     (case dropWhile (\<lambda>c. c \<noteq> sep) s of
        [] \<Rightarrow> [s]
      | _ # rest \<Rightarrow> [takeWhile (\<lambda>c. c \<noteq> sep) s, rest])"

text \<open>
  The consumer reads \<open>keyParts[0]\<close> and \<open>keyParts[1]\<close>; on a key without a
  separator the second read is out of range and the goroutine panics (\<open>None\<close>).
\<close>

definition split_key :: "string \<Rightarrow> (string \<times> string) option" where
  "split_key key =
     (let keyParts = SplitN2 (CHR ''-'') key in
      if length keyParts < 2 then None
      else Some (keyParts ! 0, keyParts ! 1))"

section \<open>Floating-point values\<close>

text \<open>
  The pipeline never computes with floating-point numbers: it copies them, widens
  \<open>float32\<close> to \<open>float64\<close> (exact) and compares them with thresholds. A value is
  therefore modelled by the real number it denotes, or one of the three special values of
  IEEE 754; comparisons with a NaN are false, as in Go.
\<close>

datatype float64 = Finite real | PosInf | NegInf | NaN



text \<open>\<open>float64(n)\<close> for an \<open>int\<close> (exact below \<open>2^53\<close> in magnitude, which covers
  percentages and degrees).\<close>

definition float64_of_int :: "int \<Rightarrow> float64" where
  "float64_of_int n = Finite (of_int n)"

section \<open>Calendar dates\<close>

text \<open>
  \<open>Format("2006-01-02")\<close> prints the calendar date of a time as year (at least four
  digits), month and day (two digits each). A calendar day is identified by its number of
  days since 1970-01-01; the proleptic Gregorian date of a day number is computed in the
  usual way from 400-year eras. Times are taken in UTC, the zone of the container.
\<close>

definition civil_from_days :: "int \<Rightarrow> int \<times> int \<times> int" where
  "civil_from_days z0 =
     (let z = z0 + 719468;
          era = z div 146097;
          doe = z mod 146097;
          yoe = (doe - doe div 1460 + doe div 36524 - doe div 146096) div 365;
          doy = doe - (365 * yoe + yoe div 4 - yoe div 100);
          mp = (5 * doy + 2) div 153;
          d = doy - (153 * mp + 2) div 5 + 1;
          m = (if mp < 10 then mp + 3 else mp - 9);
          y = yoe + era * 400 + (if m \<le> 2 then 1 else 0)
      in (y, m, d))"

fun show_nat :: "nat \<Rightarrow> string" where
  "show_nat n =
     (if n < 10 then [char_of (48 + n)]
      else show_nat (n div 10) @ [char_of (48 + n mod 10)])"

definition pad_int :: "nat \<Rightarrow> int \<Rightarrow> string" where
  "pad_int width n =
     (let ds = show_nat (nat \<bar>n\<bar>)
      in (if n < 0 then [CHR ''-''] else []) @ replicate (width - length ds) (CHR ''0'') @ ds)"

definition format_date :: "int \<Rightarrow> string" where
  "format_date day =
     (case civil_from_days day of
        (y, m, d) \<Rightarrow> pad_int 4 y @ [CHR ''-''] @ pad_int 2 m @ [CHR ''-''] @ pad_int 2 d)"

text \<open>\<open>time.Unix(t, 0).Format("2006-01-02")\<close>: the date of a Unix time in seconds.\<close>

definition unix_date :: "int \<Rightarrow> string" where
  "unix_date t = format_date (t div 86400)"

section \<open>The durable log and the dedup check (\<open>isInTSDB\<close>)\<close>

record WeatherMessage =
  Topic :: string
  Zip :: string
  Date :: string
  Temperature :: float64
  FeelsLike :: float64
  Humidity :: float64
  WindSpeed :: float64
  WindDegree :: float64
  Cloud :: float64

text \<open>
  The log is the file \<open>/data/metrics.jsonl\<close>. It may be missing (\<open>os.Open\<close> fails,
  \<open>os.OpenFile\<close> with \<open>O_CREATE\<close> creates it), inaccessible (both fail), or
  present with some bytes.
\<close>

datatype logfile = Absent | Denied | Content string

text \<open>
  \<open>bufio.Scanner\<close> with its default split function \<open>ScanLines\<close>: the bytes between
  line feeds, a last line without line feed included when it is not empty, and one
  trailing carriage return dropped from each line. (Lines are taken to fit the scanner's
  buffer; the records the pipeline writes are a few hundred bytes.)
\<close>

fun lines_of :: "string \<Rightarrow> string list" where
  "lines_of [] = []"
| "lines_of (c # cs) =
     (if c = CHR 0x0A then [] # lines_of cs
      else (case lines_of cs of
              [] \<Rightarrow> [[c]]
            | l # ls \<Rightarrow> (c # l) # ls))"

definition dropCR :: "string \<Rightarrow> string" where
  "dropCR l = (if l \<noteq> [] \<and> last l = CHR 0x0D then butlast l else l)"

definition ScanLines :: "string \<Rightarrow> string list" where
  "ScanLines bytes = map dropCR (lines_of bytes)"

text \<open>
  The loop of \<open>isInTSDB\<close> over the scanned lines. \<open>unmarshal\<close> stands for
  \<open>json.Unmarshal\<close> into a fresh \<open>WeatherMessage\<close>: \<open>None\<close> when it reports an
  error (the line is skipped), the decoded message otherwise.
\<close>

fun scan_log :: "(string \<Rightarrow> WeatherMessage option) \<Rightarrow> string \<Rightarrow> string \<Rightarrow> string list \<Rightarrow> bool" where
  "scan_log unmarshal zipCode date [] = False"
| "scan_log unmarshal zipCode date (line # rest) =
     (case unmarshal line of
        None \<Rightarrow> scan_log unmarshal zipCode date rest
      | Some msg \<Rightarrow>
          if Zip msg = zipCode \<and> Date msg = date then True
          else scan_log unmarshal zipCode date rest)"

text \<open>\<open>today\<close> is the day number of \<open>time.Now()\<close>; \<open>AddDate(0, 0, n)\<close> moves the
  calendar date by \<open>n\<close> days.\<close>

definition target_date :: "int \<Rightarrow> int \<Rightarrow> string" where
  "target_date today days = format_date (today + (days - 1))"

definition isInTSDB ::
  "(string \<Rightarrow> WeatherMessage option) \<Rightarrow> int \<Rightarrow> logfile \<Rightarrow> PreCoordinateRequest \<Rightarrow> bool" where
  "isInTSDB unmarshal today logf req =
     (let zipCode = ZIPCode req;
          date = target_date today (Days req)
      in case logf of
           Content bytes \<Rightarrow> scan_log unmarshal zipCode date (ScanLines bytes)
         | _ \<Rightarrow> False)"

text \<open>
  A resolver worker asks \<open>isInTSDB\<close> first and goes on to the provider only when the
  answer is \<open>false\<close>.
\<close>

datatype gate_decision = SkipFetch | Fetch

definition dedup_gate ::
  "(string \<Rightarrow> WeatherMessage option) \<Rightarrow> int \<Rightarrow> logfile \<Rightarrow> PreCoordinateRequest \<Rightarrow> gate_decision" where
  "dedup_gate unmarshal today logf req =
     (let exists = isInTSDB unmarshal today logf req
      in if \<not> exists then Fetch else SkipFetch)"

section \<open>The metrics store and the aggregation step (\<open>updateMetrics\<close>)\<close>




text \<open>The five alert thresholds, package variables set once by \<open>init\<close>.\<close>

record thresholds =
  tempLow :: float64
  tempHigh :: float64
  humidityLow :: float64
  humidityHigh :: float64
  windHigh :: float64

definition alert_value :: "bool \<Rightarrow> float64" where
  "alert_value crossed = (if crossed then Finite 1 else Finite 0)"




section \<open>Configuration (\<open>init\<close> and the start of \<open>main\<close>)\<close>

type_synonym environ = "string \<rightharpoonup> string"

text \<open>\<open>os.Getenv\<close> returns the empty string for a variable that is not set.\<close>

definition Getenv :: "environ \<Rightarrow> string \<Rightarrow> string" where
  "Getenv env name = (case env name of None \<Rightarrow> [] | Some v \<Rightarrow> v)"

text \<open>
  \<open>init\<close> reads each threshold with \<open>strconv.ParseFloat\<close> and falls back to a constant
  when the parse reports an error. \<open>ParseFloat\<close> is a parameter of the model: \<open>None\<close>
  for an error, the parsed value otherwise.
\<close>

definition init_threshold :: "(string \<Rightarrow> float64 option) \<Rightarrow> environ \<Rightarrow> string \<Rightarrow> float64 \<Rightarrow> float64" where
  "init_threshold ParseFloat env name fallback =
     (case ParseFloat (Getenv env name) of
        None \<Rightarrow> fallback
      | Some v \<Rightarrow> v)"

definition init_thresholds :: "(string \<Rightarrow> float64 option) \<Rightarrow> environ \<Rightarrow> thresholds" where
  "init_thresholds ParseFloat env =
     \<lparr>tempLow = init_threshold ParseFloat env ''TEMP_LOW'' (Finite 32),
      tempHigh = init_threshold ParseFloat env ''TEMP_HIGH'' (Finite 90),
      humidityLow = init_threshold ParseFloat env ''HUMIDITY_LOW'' (Finite 30),
      humidityHigh = init_threshold ParseFloat env ''HUMIDITY_HIGH'' (Finite 70),
      windHigh = init_threshold ParseFloat env ''WIND_SPEED_HIGH'' (Finite 40)\<rparr>"

text \<open>\<open>strings.Trim(s, cutset)\<close> for a cutset of one-byte characters.\<close>

definition Trim :: "string \<Rightarrow> string \<Rightarrow> string" where
  "Trim s cutset =
     rev (dropWhile (\<lambda>c. c \<in> set cutset) (rev (dropWhile (\<lambda>c. c \<in> set cutset) s)))"

definition DEFAULT_NUM_WORKERS :: int where
  "DEFAULT_NUM_WORKERS = 10"

text \<open>The worker count of \<open>main\<close>: the variable \<open>WORKERS\<close> with surrounding quotes
  removed, read by \<open>Atoi\<close>.\<close>

definition numWorkers :: "environ \<Rightarrow> int" where
  "numWorkers env =
     (let workers = Trim (Getenv env ''WORKERS'') [CHR 0x27, CHR 0x22]
      in case Atoi workers of
           None \<Rightarrow> DEFAULT_NUM_WORKERS
         | Some n \<Rightarrow> if n \<le> 0 then DEFAULT_NUM_WORKERS else n)"

text \<open>
  A \<open>time.Duration\<close> counts nanoseconds. \<open>waitForGrafana\<close> polls the health endpoint:
  each poll is the status code of the reply (\<open>None\<close> when the request failed) together
  with the time elapsed since the start when the poll is over. The result is \<open>Some True\<close>
  when the service is ready, \<open>Some False\<close> when the wait gave up with an error, and
  \<open>None\<close> while the polls seen so far decide nothing.
\<close>

definition Second :: int where
  "Second = 1000000000"

fun waitForGrafana :: "int \<Rightarrow> (nat option \<times> int) list \<Rightarrow> bool option" where
  "waitForGrafana timeout [] = None"
| "waitForGrafana timeout ((status, elapsed) # polls) =
     (if status = Some 200 \<or> status = Some 401 then Some True
      else if elapsed > timeout then Some False
      else waitForGrafana timeout polls)"

definition grafanaTimeout :: int where
  "grafanaTimeout = 60 * Second"

definition main_waitForGrafana :: "(nat option \<times> int) list \<Rightarrow> bool option" where
  "main_waitForGrafana polls = waitForGrafana grafanaTimeout polls"

section \<open>Values of type \<open>any\<close>\<close>

text \<open>
  The fields \<open>Cod\<close> and \<open>Message\<close> of both provider responses have the interface
  type \<open>any\<close>. A value of that type carries a dynamic type together with its value.
  \<open>encoding/json\<close> stores a JSON value into an \<open>any\<close> as follows: \<open>null\<close> as
  \<open>nil\<close>, a boolean as \<open>bool\<close>, every number as \<open>float64\<close>, a string as
  \<open>string\<close>, an array as \<open>[]any\<close> and an object as \<open>map[string]any\<close>.
\<close>

datatype go_any =
    AnyNil
  | AnyBool bool
  | AnyInt int
  | AnyFloat64 float64
  | AnyString string
  | AnySlice
  | AnyMap

datatype json_value =
    JNull
  | JBool bool
  | JNumber float64
  | JString string
  | JArray
  | JObject

fun any_of_json :: "json_value \<Rightarrow> go_any" where
  "any_of_json JNull = AnyNil"
| "any_of_json (JBool b) = AnyBool b"
| "any_of_json (JNumber x) = AnyFloat64 x"
| "any_of_json (JString s) = AnyString s"
| "any_of_json JArray = AnySlice"
| "any_of_json JObject = AnyMap"

text \<open>
  Comparing an \<open>any\<close> with a constant converts the constant to its default type
  (\<open>int\<close> for \<open>401\<close>, \<open>string\<close> for \<open>"404"\<close> and \<open>"200"\<close>); two interface
  values are equal when their dynamic types are identical and their values are equal.
\<close>

fun any_eq_int :: "go_any \<Rightarrow> int \<Rightarrow> bool" where
  "any_eq_int (AnyInt m) n = (m = n)"
| "any_eq_int _ n = False"

fun any_eq_string :: "go_any \<Rightarrow> string \<Rightarrow> bool" where
  "any_eq_string (AnyString t) s = (t = s)"
| "any_eq_string _ s = False"

section \<open>Location resolution (\<open>convertToCoordinates\<close>)\<close>

record PostLocationRequest = PreCoordinateRequest +
  Name :: string
  Lat :: float64
  Lon :: float64

text \<open>The fields of \<open>ZIPResponse\<close> that the code reads.\<close>

record ZIPResponse =
  geo_Name :: string
  geo_Latitude :: float64
  geo_Longitude :: float64
  geo_Cod :: go_any
  geo_Message :: go_any

text \<open>
  What the call of the geocoding provider gives: \<open>http.Get\<close> fails, the body does not
  decode, or a response is decoded. The first two end the process through \<open>check\<close>.
\<close>

datatype geo_reply = GeoGetFailed | GeoDecodeFailed | GeoDecoded ZIPResponse

datatype resolve_result = Exited int | Dropped | Forwarded PostLocationRequest

definition convertToCoordinates :: "PreCoordinateRequest \<Rightarrow> geo_reply \<Rightarrow> resolve_result" where
  "convertToCoordinates req reply =
     (let days = Days req; zipCode = ZIPCode req; lineNum = LineNum req in
      case reply of
        GeoGetFailed \<Rightarrow> Exited 1
      | GeoDecodeFailed \<Rightarrow> Exited 1
      | GeoDecoded response \<Rightarrow>
          if any_eq_int (geo_Cod response) 401 then Exited 1
          else if any_eq_string (geo_Cod response) ''404'' then Dropped
          else Forwarded \<lparr>Days = days, ZIPCode = zipCode, LineNum = lineNum,
                           Name = geo_Name response,
                           Lat = geo_Latitude response,
                           Lon = geo_Longitude response\<rparr>)"

text \<open>
  The provider's answer to a request with an invalid key is the JSON object
  \<open>{"cod":401, "message":"Invalid API key. ..."}\<close>; a zip code it does not know is
  answered with \<open>{"cod":"404","message":"not found"}\<close>. Decoding leaves the fields that
  the object does not have at their zero values.
\<close>

definition decoded_error_body :: "json_value \<Rightarrow> json_value \<Rightarrow> ZIPResponse" where
  "decoded_error_body cod message =
     \<lparr>geo_Name = [], geo_Latitude = Finite 0, geo_Longitude = Finite 0,
      geo_Cod = any_of_json cod, geo_Message = any_of_json message\<rparr>"

text \<open>One turn of a resolver worker of \<open>main\<close>: the dedup check, then the provider.\<close>

datatype worker_result = NoFetch | Resolved resolve_result

definition resolver_worker ::
  "(string \<Rightarrow> WeatherMessage option) \<Rightarrow> int \<Rightarrow> logfile \<Rightarrow> geo_reply \<Rightarrow> PreCoordinateRequest \<Rightarrow> worker_result" where
  "resolver_worker unmarshal today logf reply req =
     (case dedup_gate unmarshal today logf req of
        SkipFetch \<Rightarrow> NoFetch
      | Fetch \<Rightarrow> Resolved (convertToCoordinates req reply))"

section \<open>Forecast fetch (\<open>processRequest\<close>)\<close>

text \<open>Go's \<open>int\<close> arithmetic wraps around at 64 bits.\<close>

definition wrap64 :: "int \<Rightarrow> int" where
  "wrap64 x = (x + 2 ^ 63) mod 2 ^ 64 - 2 ^ 63"

text \<open>The fields of one sample (\<open>DailyResponse\<close>) that the code reads.\<close>

record DailyResponse =
  Time :: int
  Main_Temp :: float64
  Main_FeelsLike :: float64
  Main_Humidity :: int
  Clouds_All :: int
  Wind_Speed :: float64
  Wind_Deg :: int

record APIResponse =
  api_Cod :: go_any
  api_Message :: go_any
  DaysList :: "DailyResponse list"

datatype api_reply = ApiGetFailed | ApiDecodeFailed | ApiDecoded APIResponse

text \<open>The query of the forecast request: coordinates and the number of samples
  \<open>cnt := days * 8\<close>.\<close>

record forecast_query =
  q_lat :: float64
  q_lon :: float64
  q_cnt :: int

definition forecast_request :: "PostLocationRequest \<Rightarrow> forecast_query" where
  "forecast_request req =
     \<lparr>q_lat = Lat req, q_lon = Lon req, q_cnt = wrap64 (Days req * 8)\<rparr>"

datatype payload =
    TemperaturePayload string string float64 float64
  | HumidityPayload string string float64
  | WindPayload string string float64 float64
  | CloudPayload string string float64

datatype writer = TempWriter | HumidityWriter | WindWriter | CloudWriter

text \<open>A published message: the writer (one per topic), the key and the payload whose
  JSON encoding is the value.\<close>

type_synonym published = "writer \<times> string \<times> payload"

definition publish_sample :: "string \<Rightarrow> string \<Rightarrow> DailyResponse \<Rightarrow> published list" where
  "publish_sample location zipCode r =
     (let date = unix_date (Time r);
          key = message_key zipCode date
      in [(TempWriter, key, TemperaturePayload location date (Main_Temp r) (Main_FeelsLike r)),
          (HumidityWriter, key, HumidityPayload location date (float64_of_int (Main_Humidity r))),
          (WindWriter, key,
             WindPayload location date (Wind_Speed r) (float64_of_int (Wind_Deg r))),
          (CloudWriter, key, CloudPayload location date (float64_of_int (Clouds_All r)))])"

datatype run_end = Returned | ExitedWith int | Panicked

text \<open>
  The loop \<open>for i := 0; i < days && i*8 < len(results.DaysList); i++\<close>. It returns what
  has been published and how the run ended; an index below zero (possible only after
  \<open>i*8\<close> has wrapped around) is a run-time panic.
\<close>

function publish_loop ::
  "int \<Rightarrow> string \<Rightarrow> string \<Rightarrow> DailyResponse list \<Rightarrow> int \<Rightarrow> published list \<times> run_end" where
  "publish_loop days location zipCode list i =
     (if i < days \<and> wrap64 (i * 8) < int (length list) then
        (if wrap64 (i * 8) < 0 then ([], Panicked)
         else
           (case publish_loop days location zipCode list (i + 1) of
              (later, e) \<Rightarrow>
                (publish_sample location zipCode (list ! nat (wrap64 (i * 8))) @ later, e)))
      else ([], Returned))"
  by pat_completeness auto
termination
  by (relation "measure (\<lambda>(days, location, zipCode, list, i). nat (days - i))") auto

definition processRequest :: "PostLocationRequest \<Rightarrow> api_reply \<Rightarrow> published list \<times> run_end" where
  "processRequest req reply =
     (let days = Days req; location = Name req; zipCode = ZIPCode req in
      case reply of
        ApiGetFailed \<Rightarrow> ([], ExitedWith 1)
      | ApiDecodeFailed \<Rightarrow> ([], ExitedWith 1)
      | ApiDecoded results \<Rightarrow>
          if \<not> any_eq_string (api_Cod results) ''200'' then ([], ExitedWith 1)
          else publish_loop days location zipCode (DaysList results) 0)"

text \<open>
  The spec's words for the sample that stands for a calendar day: the first sample of
  the provider's sequence whose time falls on that day. (This definition follows the
  spec; the loop of \<open>processRequest\<close> above is the code.)
\<close>

definition first_sample_of_day :: "string \<Rightarrow> DailyResponse list \<Rightarrow> DailyResponse option" where
  "first_sample_of_day date list = find (\<lambda>r. unix_date (Time r) = date) list"

section \<open>The consumer (\<open>consumeKafkaTopic\<close>)\<close>

text \<open>
  What the consumer does with one message read from a topic: the value is decoded into a
  \<open>WeatherMessage\<close> (a failure ends the process through \<open>check\<close>), the key gives
  \<open>Zip\<close> and \<open>Date\<close>, and the topic is recorded.
\<close>

datatype consume_result = ConsumeExited int | ConsumePanicked | Sent WeatherMessage

definition consume_message ::
  "(string \<Rightarrow> WeatherMessage option) \<Rightarrow> string \<Rightarrow> string \<Rightarrow> string \<Rightarrow> consume_result" where
  "consume_message unmarshal topic key val =
     (case unmarshal val of
        None \<Rightarrow> ConsumeExited 1
      | Some msg \<Rightarrow>
          (case split_key key of
             None \<Rightarrow> ConsumePanicked
           | Some (zipCode, date) \<Rightarrow> Sent (msg\<lparr>Zip := zipCode, Date := date, Topic := topic\<rparr>)))"

section \<open>The shutdown sequence of \<open>main\<close>\<close>












section \<open>Verified properties\<close>

subsection \<open>Input parsing and message keys\<close>

text \<open>
  Claim C8. Every request that \<open>parseLine\<close> accepts, for any input line and any line
  number, has a day count that is positive and at most 5, the provider limit.
\<close>

theorem parseLine_days_bound:
  "parseLine text lineNum = Some req \<Longrightarrow> 0 < Days req \<and> Days req \<le> 5"
  unfolding parseLine_def Let_def
  by (auto split: if_splits option.splits)

theorem parseLine_days_bound_witness:
  "parseLine ''9 | 10001'' 7 = Some \<lparr>Days = 5, ZIPCode = ''10001'', LineNum = 7\<rparr>
   \<and> 0 < Days \<lparr>Days = 5, ZIPCode = ''10001'', LineNum = 7\<rparr>
   \<and> Days \<lparr>Days = 5, ZIPCode = ''10001'', LineNum = 7\<rparr> \<le> 5"
proof -
  have accepted:
    "parseLine ''9 | 10001'' 7 = Some \<lparr>Days = 5, ZIPCode = ''10001'', LineNum = 7\<rparr>"
    by code_simp
  from accepted parseLine_days_bound [OF accepted] show ?thesis by simp
qed




subsection \<open>The dedup check\<close>




subsection \<open>The shutdown sequence\<close>















subsection \<open>Alert gauges\<close>

lemma alert_value_one: "alert_value b = Finite 1 \<longleftrightarrow> b"
  by (simp add: alert_value_def)

lemma alert_value_zero: "alert_value b = Finite 0 \<longleftrightarrow> \<not> b"
  by (simp add: alert_value_def)









subsection \<open>Location resolution and the provider's error replies\<close>

text \<open>No value that \<open>encoding/json\<close> stores into an \<open>any\<close> has the dynamic type
  \<open>int\<close>, so it is different from the constant \<open>401\<close>.\<close>

lemma json_any_never_int: "any_eq_int (any_of_json j) n = False"
  by (cases j) simp_all

lemma decoded_response_never_exits:
  "geo_Cod response = any_of_json j \<Longrightarrow>
     convertToCoordinates req (GeoDecoded response) \<noteq> Exited n"
  by (simp add: convertToCoordinates_def json_any_never_int)

text \<open>
  Claim C6 holds for the spec and fails on the code. The provider reports an invalid key
  with the JSON number 401 in \<open>cod\<close>; decoded into an \<open>any\<close> it is the \<open>float64\<close>
  401, which the comparison \<open>response.Cod == 401\<close> finds different from the \<open>int\<close>
  401. The process is not ended there: the request goes on to the fetch stage with the
  zero coordinates and the empty name of the decoded error body.
\<close>

theorem invalid_credential_is_forwarded:
  "convertToCoordinates \<lparr>Days = 3, ZIPCode = ''10001'', LineNum = 1\<rparr>
     (GeoDecoded (decoded_error_body (JNumber (Finite 401)) (JString ''Invalid API key'')))
   = Forwarded \<lparr>Days = 3, ZIPCode = ''10001'', LineNum = 1,
                Name = [], Lat = Finite 0, Lon = Finite 0\<rparr>"
  by (simp add: convertToCoordinates_def decoded_error_body_def)

text \<open>For comparison, the reply for an unknown zip code carries the string \<open>"404"\<close>
  and is recognised: the request is dropped.\<close>

lemma not_found_is_dropped:
  "convertToCoordinates req
     (GeoDecoded (decoded_error_body (JString ''404'') (JString ''not found''))) = Dropped"
  by (simp add: convertToCoordinates_def decoded_error_body_def)

text \<open>The fetch stage ends the process on any reply whose \<open>cod\<close> is not the string
  \<open>"200"\<close>, and publishes nothing.\<close>

lemma processRequest_error_reply:
  "\<not> any_eq_string (api_Cod results) ''200'' \<Longrightarrow>
     processRequest req (ApiDecoded results) = ([], ExitedWith 1)"
  by (simp add: processRequest_def)

subsection \<open>Configuration defaults\<close>

lemma Atoi_empty: "Atoi [] = None"
  by (simp add: Atoi_def)

lemma init_threshold_fallback:
  assumes "ParseFloat [] = None"
    and "env name = None \<or> ParseFloat (the (env name)) = None"
  shows "init_threshold ParseFloat env name fallback = fallback"
  using assms by (auto simp: init_threshold_def Getenv_def split: option.splits)

lemma numWorkers_fallback:
  assumes "env ''WORKERS'' = None
           \<or> Atoi (Trim (the (env ''WORKERS'')) [CHR 0x27, CHR 0x22]) = None"
  shows "numWorkers env = 10"
  using assms
  by (auto simp: numWorkers_def Getenv_def Trim_def Atoi_empty DEFAULT_NUM_WORKERS_def
           split: option.splits)

text \<open>
  Claim C9. A threshold whose environment variable is absent, or has a value that
  \<open>ParseFloat\<close> rejects, takes its default: 32 and 90 for the temperature, 30 and 70
  for the humidity, 40 for the wind. The worker count is 10 when \<open>WORKERS\<close> is absent or
  its value (surrounding quotes removed, as \<open>main\<close> does) is rejected by \<open>Atoi\<close>. The
  readiness wait for the dashboard service is called with 60 seconds: a poll without a
  ready answer gives up once more than 60 seconds have passed and goes on polling
  otherwise. (\<open>ParseFloat\<close> rejects the empty string, the value \<open>Getenv\<close> gives for
  an absent variable.)
\<close>

theorem config_defaults:
  assumes "ParseFloat [] = None"
  shows
    "(env ''TEMP_LOW'' = None \<or> ParseFloat (the (env ''TEMP_LOW'')) = None
        \<longrightarrow> tempLow (init_thresholds ParseFloat env) = Finite 32)
     \<and> (env ''TEMP_HIGH'' = None \<or> ParseFloat (the (env ''TEMP_HIGH'')) = None
        \<longrightarrow> tempHigh (init_thresholds ParseFloat env) = Finite 90)
     \<and> (env ''HUMIDITY_LOW'' = None \<or> ParseFloat (the (env ''HUMIDITY_LOW'')) = None
        \<longrightarrow> humidityLow (init_thresholds ParseFloat env) = Finite 30)
     \<and> (env ''HUMIDITY_HIGH'' = None \<or> ParseFloat (the (env ''HUMIDITY_HIGH'')) = None
        \<longrightarrow> humidityHigh (init_thresholds ParseFloat env) = Finite 70)
     \<and> (env ''WIND_SPEED_HIGH'' = None \<or> ParseFloat (the (env ''WIND_SPEED_HIGH'')) = None
        \<longrightarrow> windHigh (init_thresholds ParseFloat env) = Finite 40)
     \<and> (env ''WORKERS'' = None
          \<or> Atoi (Trim (the (env ''WORKERS'')) [CHR 0x27, CHR 0x22]) = None
        \<longrightarrow> numWorkers env = 10)
     \<and> grafanaTimeout = 60 * 1000000000
     \<and> main_waitForGrafana ((status, elapsed) # polls) =
         (if status = Some 200 \<or> status = Some 401 then Some True
          else if elapsed > 60 * 1000000000 then Some False
          else main_waitForGrafana polls)"
  using assms
  by (simp add: init_thresholds_def init_threshold_fallback numWorkers_fallback
        grafanaTimeout_def Second_def main_waitForGrafana_def)

theorem config_defaults_witness:
  "init_thresholds
     (\<lambda>s. if s = ''75.5'' then Some (Finite 75.5) else None)
     [''TEMP_LOW'' \<mapsto> ''cold'', ''HUMIDITY_HIGH'' \<mapsto> ''75.5'']
   = \<lparr>tempLow = Finite 32, tempHigh = Finite 90, humidityLow = Finite 30,
      humidityHigh = Finite 75.5, windHigh = Finite 40\<rparr>
   \<and> numWorkers [''TEMP_LOW'' \<mapsto> ''cold'', ''HUMIDITY_HIGH'' \<mapsto> ''75.5''] = 10
   \<and> numWorkers [''WORKERS'' \<mapsto> ''many''] = 10"
proof -
  let ?pf = "\<lambda>s. if s = ''75.5'' then Some (Finite 75.5) else None"
  let ?env = "[''TEMP_LOW'' \<mapsto> ''cold'', ''HUMIDITY_HIGH'' \<mapsto> ''75.5'']"
  let ?env2 = "[''WORKERS'' \<mapsto> ''many'']"
  have empty: "?pf [] = None" by simp
  have many: "Atoi (Trim (the (?env2 ''WORKERS'')) [CHR 0x27, CHR 0x22]) = None"
    by code_simp
  have "tempLow (init_thresholds ?pf ?env) = Finite 32"
    and "tempHigh (init_thresholds ?pf ?env) = Finite 90"
    and "humidityLow (init_thresholds ?pf ?env) = Finite 30"
    and "windHigh (init_thresholds ?pf ?env) = Finite 40"
    and "numWorkers ?env = 10"
    using config_defaults [where ParseFloat = ?pf and env = ?env, OF empty] by simp_all
  moreover have "humidityHigh (init_thresholds ?pf ?env) = Finite 75.5"
    by (simp add: init_thresholds_def init_threshold_def Getenv_def)
  moreover have "numWorkers ?env2 = 10"
    using config_defaults [where ParseFloat = ?pf and env = ?env2, OF empty] many by blast
  ultimately show ?thesis
    by (cases "init_thresholds ?pf ?env") simp
qed

subsection \<open>Forecast fetch\<close>

declare publish_loop.simps [simp del]

lemma wrap64_id: "0 \<le> x \<Longrightarrow> x < 2 ^ 63 \<Longrightarrow> wrap64 x = x"
  by (simp add: wrap64_def)

lemma length_publish_sample: "length (publish_sample location zipCode r) = 4"
  by (simp add: publish_sample_def Let_def)

lemma writers_publish_sample:
  "map fst (publish_sample location zipCode r)
     = [TempWriter, HumidityWriter, WindWriter, CloudWriter]"
  by (simp add: publish_sample_def Let_def)

text \<open>With enough samples the loop runs once for every day from \<open>i\<close> on, reading the
  sample at eight times the day's index.\<close>

lemma publish_loop_run:
  assumes "0 \<le> i" and "i \<le> days"
    and "8 * days \<le> int (length list)" and "int (length list) < 2 ^ 63"
  shows "publish_loop days location zipCode list i
           = (concat (map (\<lambda>k. publish_sample location zipCode (list ! (8 * k)))
                          [nat i..<nat days]), Returned)"
  using assms
proof (induction "nat (days - i)" arbitrary: i)
  case 0
  then have "i = days" by simp
  then show ?case
    by (subst publish_loop.simps) simp
next
  case (Suc n)
  then have lt: "i < days" by linarith
  with Suc.prems have range: "0 \<le> i * 8" "i * 8 < int (length list)" "i * 8 < 2 ^ 63"
    by linarith+
  then have w: "wrap64 (i * 8) = i * 8"
    by (simp add: wrap64_id)
  from Suc.hyps(2) have n: "n = nat (days - (i + 1))" by linarith
  from Suc.prems lt have
    rest: "publish_loop days location zipCode list (i + 1)
             = (concat (map (\<lambda>k. publish_sample location zipCode (list ! (8 * k)))
                            [nat (i + 1)..<nat days]), Returned)"
    by (intro Suc.hyps(1) [OF n]) linarith+
  from Suc.prems(1) have idx: "nat (i * 8) = 8 * nat i"
    by (simp add: nat_mult_distrib mult.commute)
  from Suc.prems(1) lt have "[nat i..<nat days] = nat i # [nat (i + 1)..<nat days]"
    by (simp add: upt_conv_Cons nat_add_distrib)
  with lt range w rest idx show ?case
    by (subst publish_loop.simps) simp
qed

lemma processRequest_run:
  assumes "any_eq_string (api_Cod results) ''200''"
    and "0 \<le> Days req"
    and "8 * Days req \<le> int (length (DaysList results))"
    and "int (length (DaysList results)) < 2 ^ 63"
  shows "processRequest req (ApiDecoded results)
           = (concat (map (\<lambda>k. publish_sample (Name req) (ZIPCode req)
                                   (DaysList results ! (8 * k)))
                          [0..<nat (Days req)]), Returned)"
  using assms publish_loop_run [of 0 "Days req" "DaysList results" "Name req" "ZIPCode req"]
  by (simp add: processRequest_def)

lemma concat_blocks_length:
  "(\<And>x. length (f x) = n) \<Longrightarrow> length (concat (map f xs)) = n * length xs"
  by (induction xs) simp_all

lemma concat_blocks_nth:
  assumes "\<And>x. length (f x) = n" and "i < length xs"
  shows "take n (drop (n * i) (concat (map f xs))) = f (xs ! i)"
  using assms(2)
proof (induction xs arbitrary: i)
  case Nil
  then show ?case by simp
next
  case (Cons x xs)
  show ?case
  proof (cases i)
    case 0
    then show ?thesis by (simp add: assms(1))
  next
    case (Suc j)
    with Cons.prems have "j < length xs" by simp
    from Cons.IH [OF this] Suc show ?thesis
      by (simp add: assms(1))
  qed
qed

lemma concat_blocks_writers:
  "map fst (concat (map (\<lambda>k. publish_sample location zipCode (g k)) ks))
     = concat (replicate (length ks) [TempWriter, HumidityWriter, WindWriter, CloudWriter])"
  by (induction ks) (simp_all add: writers_publish_sample)

text \<open>
  Claim C2. For a resolved request with day count \<open>d\<close>, when the reply decodes with
  status \<open>"200"\<close> and holds at least \<open>8 d\<close> samples, the run returns normally and has
  published exactly \<open>4 d\<close> messages: for each of the \<open>d\<close> days in turn one through the
  temperature writer, one through the humidity writer, one through the wind writer and
  one through the cloud writer. (The length of a Go slice is below \<open>2^63\<close>.)
\<close>

theorem processRequest_four_events_per_day:
  assumes "any_eq_string (api_Cod results) ''200''"
    and "0 \<le> Days req"
    and "8 * Days req \<le> int (length (DaysList results))"
    and "int (length (DaysList results)) < 2 ^ 63"
  shows "snd (processRequest req (ApiDecoded results)) = Returned
     \<and> int (length (fst (processRequest req (ApiDecoded results)))) = 4 * Days req
     \<and> map fst (fst (processRequest req (ApiDecoded results)))
         = concat (replicate (nat (Days req))
                     [TempWriter, HumidityWriter, WindWriter, CloudWriter])"
proof -
  note run = processRequest_run [OF assms]
  have "length (fst (processRequest req (ApiDecoded results))) = 4 * nat (Days req)"
    by (simp add: run concat_blocks_length [OF length_publish_sample])
  with assms(2) have "int (length (fst (processRequest req (ApiDecoded results)))) = 4 * Days req"
    by simp
  moreover have "map fst (fst (processRequest req (ApiDecoded results)))
      = concat (replicate (nat (Days req)) [TempWriter, HumidityWriter, WindWriter, CloudWriter])"
    by (simp add: run concat_blocks_writers)
  moreover have "snd (processRequest req (ApiDecoded results)) = Returned"
    by (simp add: run)
  ultimately show ?thesis by simp
qed

end
